theory Spec2Isabelle
  imports Main "HOL-Library.Word" "HOL-Library.Sublist"
begin

unbundle bit_operations_syntax

section \<open>Values of the runtime and of the vendor SDK\<close>

text \<open>
  The server in \<^verbatim>\<open>index.js\<close> has three routes. Each handler is modelled as a function
  from the world it runs in (the file system, the faults the file system may raise, the
  reply of the inference API) to an outcome: the chronological trace of its observable
  effects, the world it leaves, and the exception that leaves the handler, if any.
\<close>

type_synonym byte = "8 word"

text \<open>A JavaScript exception: the constructor that made it and its \<^verbatim>\<open>message\<close>.\<close>

datatype js_error = Error string | TypeError string

fun message :: "js_error \<Rightarrow> string" where
  "message (Error m) = m"
| "message (TypeError m) = m"

text \<open>\<^verbatim>\<open>req.file\<close> as multer fills it; the handler reads these three properties.\<close>

record multer_file =
  path :: string
  originalname :: string
  mimetype :: string

text \<open>
  The SDK's request and response objects. A property that a JavaScript object may lack
  is an \<open>option\<close>: \<open>None\<close> is \<^verbatim>\<open>undefined\<close>.
\<close>

record Blob =
  data :: string
  mimeType :: string

record Part =
  part_text :: "string option"
  inlineData :: "Blob option"

record Content =
  role :: "string option"
  parts :: "Part list option"

record Candidate =
  content :: "Content option"

record PromptFeedback =
  blockReason :: "string option"

record GenerateContentResponse =
  promptFeedback :: "PromptFeedback option"
  candidates :: "Candidate list option"

text \<open>
  The two enumerations are declared by the SDK, not in this repository. The source
  names four categories and one threshold; the other members stand for the SDK's
  remaining choices, so that \<open>BLOCK_NONE\<close> is one threshold among several.
\<close>

datatype HarmCategory =
    HARM_CATEGORY_UNSPECIFIED
  | HARM_CATEGORY_HATE_SPEECH
  | HARM_CATEGORY_DANGEROUS_CONTENT
  | HARM_CATEGORY_HARASSMENT
  | HARM_CATEGORY_SEXUALLY_EXPLICIT
  | HARM_CATEGORY_CIVIC_INTEGRITY

datatype HarmBlockThreshold =
    HARM_BLOCK_THRESHOLD_UNSPECIFIED
  | BLOCK_LOW_AND_ABOVE
  | BLOCK_MEDIUM_AND_ABOVE
  | BLOCK_ONLY_HIGH
  | BLOCK_NONE
  | OFF

record SafetySetting =
  category :: HarmCategory
  threshold :: HarmBlockThreshold

text \<open>
  The argument of \<^verbatim>\<open>genAI.models.generateContent\<close>. The SDK takes the options of a call,
  the safety settings among them, from the property \<^verbatim>\<open>config\<close> of that object. The object
  literals of the source have the properties \<^verbatim>\<open>model\<close>, \<^verbatim>\<open>contents\<close> and \<^verbatim>\<open>safetySettings\<close>
  and no \<^verbatim>\<open>config\<close>.
\<close>

record GenerateContentConfig =
  config_safetySettings :: "SafetySetting list option"

record GenerateContentParameters =
  model :: string
  contents :: "Content list"
  safetySettings :: "SafetySetting list"
  config :: "GenerateContentConfig option"

section \<open>The world: file system and inference API\<close>

text \<open>
  \<open>files\<close> maps a path to the bytes stored there. \<open>read_fault\<close> and \<open>unlink_fault\<close>
  give the exception the operating system raises for an existing file (permissions,
  a busy file), so that every throwing call of the source has its branch.
  \<open>generateContent\<close> is the awaited SDK call: it rejects (\<open>Inl\<close>) or resolves (\<open>Inr\<close>).
\<close>

record world =
  files :: "string \<rightharpoonup> byte list"
  read_fault :: "string \<rightharpoonup> js_error"
  unlink_fault :: "string \<rightharpoonup> js_error"
  generateContent :: "GenerateContentParameters \<Rightarrow> js_error + GenerateContentResponse"

definition enoent :: "string \<Rightarrow> string \<Rightarrow> js_error" where
  "enoent syscall p =
     Error (''ENOENT: no such file or directory, '' @ syscall @ '' '' @ [CHR 0x27] @ p @ [CHR 0x27])"

definition existsSync :: "world \<Rightarrow> string \<Rightarrow> bool" where
  "existsSync w p = (case files w p of None \<Rightarrow> False | Some bs \<Rightarrow> True)"

definition readFileSync :: "world \<Rightarrow> string \<Rightarrow> js_error + byte list" where
  "readFileSync w p =
     (case files w p of
        None \<Rightarrow> Inl (enoent ''open'' p)
      | Some bs \<Rightarrow> (case read_fault w p of Some e \<Rightarrow> Inl e | None \<Rightarrow> Inr bs))"

definition unlinkSync :: "world \<Rightarrow> string \<Rightarrow> js_error + world" where
  "unlinkSync w p =
     (case files w p of
        None \<Rightarrow> Inl (enoent ''unlink'' p)
      | Some bs \<Rightarrow>
          (case unlink_fault w p of
             Some e \<Rightarrow> Inl e
           | None \<Rightarrow> Inr (w\<lparr>files := (files w)(p := None)\<rparr>)))"

section \<open>Observable effects\<close>

datatype log_arg =
    LStr string
  | LUndefined
  | LErr js_error
  | LPayload string "Content list"
    \<comment> \<open>\<^verbatim>\<open>JSON.stringify({model, contents}, null, 2)\<close>, kept structured\<close>
  | LStack js_error
    \<comment> \<open>\<^verbatim>\<open>err.stack\<close>, kept structured\<close>

datatype jsval = JUndefined | JBool bool | JString string

datatype body =
    Text string
  | Json "(string \<times> jsval) list"
  | ErrorPage js_error
    \<comment> \<open>the HTML page the framework writes for an error no handler took, kept structured\<close>

record response =
  status :: nat
  body :: body

datatype event =
    ConsoleLog "log_arg list"
  | ConsoleError "log_arg list"
  | ReadFileSync string
  | GenerateContent GenerateContentParameters
  | Send response
  | ExistsSync string
  | UnlinkSync string
  | DestroySocket

record outcome =
  trace :: "event list"
  final :: world
  escaped :: "js_error option"

text \<open>
  \<^verbatim>\<open>res.status(c).send(obj)\<close> with an object serialises it with \<^verbatim>\<open>JSON.stringify\<close>, which
  leaves out the properties whose value is \<^verbatim>\<open>undefined\<close>. Without \<^verbatim>\<open>res.status\<close> the
  status is 200.
\<close>

definition send_json :: "nat \<Rightarrow> (string \<times> jsval) list \<Rightarrow> event" where
  "send_json c obj = Send \<lparr>status = c, body = Json (filter (\<lambda>kv. snd kv \<noteq> JUndefined) obj)\<rparr>"

definition send_text :: "nat \<Rightarrow> string \<Rightarrow> event" where
  "send_text c s = Send \<lparr>status = c, body = Text s\<rparr>"

fun js_string :: "string option \<Rightarrow> jsval" where
  "js_string None = JUndefined"
| "js_string (Some s) = JString s"

fun log_string :: "string option \<Rightarrow> log_arg" where
  "log_string None = LUndefined"
| "log_string (Some s) = LStr s"

section \<open>\<^verbatim>\<open>GET /\<close>\<close>

text \<open>
  The acknowledgement starts with U+1F331 and ends with U+2705; the body is written here
  as the UTF-8 bytes that \<^verbatim>\<open>res.send\<close> puts on the wire.
\<close>

definition liveness_text :: string where
  "liveness_text =
     [CHR 0xF0, CHR 0x9F, CHR 0x8C, CHR 0xB1] @ '' Plant Disease Detection Server is running ''
       @ [CHR 0xE2, CHR 0x9C, CHR 0x85]"

definition get_root :: "world \<Rightarrow> outcome" where
  "get_root w =
     \<lparr>trace = [ConsoleLog [LStr ''Health check hit''], send_text 200 liveness_text],
      final = w, escaped = None\<rparr>"

section \<open>Base64, as \<^verbatim>\<open>Buffer.prototype.toString('base64')\<close> produces it\<close>

text \<open>
  The encoder belongs to the runtime: the standard alphabet, three bytes to four
  characters, \<^verbatim>\<open>=\<close> padding on a last group of one or two bytes.
\<close>

definition b64_alphabet :: string where
  "b64_alphabet = ''ABCDEFGHIJKLMNOPQRSTUVWXYZabcdefghijklmnopqrstuvwxyz0123456789+/''"

definition b64_char :: "byte \<Rightarrow> char" where
  "b64_char s = b64_alphabet ! unat (s AND 63)"

fun base64 :: "byte list \<Rightarrow> string" where
  "base64 [] = []"
| "base64 [a] =
     [b64_char (drop_bit 2 a), b64_char (push_bit 4 (a AND 3)), CHR ''='', CHR ''='']"
| "base64 [a, b] =
     [b64_char (drop_bit 2 a), b64_char (push_bit 4 (a AND 3) OR drop_bit 4 b),
      b64_char (push_bit 2 (b AND 15)), CHR ''='']"
| "base64 (a # b # c # rest) =
     [b64_char (drop_bit 2 a), b64_char (push_bit 4 (a AND 3) OR drop_bit 4 b),
      b64_char (push_bit 2 (b AND 15) OR drop_bit 6 c), b64_char (c AND 63)] @ base64 rest"

text \<open>The inverse, used only to state that the encoding loses nothing.\<close>

definition b64_index :: "char \<Rightarrow> byte option" where
  "b64_index ch =
     (let n = (of_char ch :: nat) in
      if 65 \<le> n \<and> n \<le> 90 then Some (of_nat (n - 65))
      else if 97 \<le> n \<and> n \<le> 122 then Some (of_nat (n - 71))
      else if 48 \<le> n \<and> n \<le> 57 then Some (of_nat (n + 4))
      else if n = 43 then Some 62
      else if n = 47 then Some 63
      else None)"

fun base64_decode :: "string \<Rightarrow> byte list option" where
  "base64_decode [] = Some []"
| "base64_decode [c1, c2, c3, c4] =
     (case (b64_index c1, b64_index c2) of
        (Some s1, Some s2) \<Rightarrow>
          (let a = push_bit 2 s1 OR drop_bit 4 s2 in
           if c3 = CHR ''='' \<and> c4 = CHR ''='' then Some [a]
           else (case b64_index c3 of
                   None \<Rightarrow> None
                 | Some s3 \<Rightarrow>
                     (let b = push_bit 4 s2 OR drop_bit 2 s3 in
                      if c4 = CHR ''='' then Some [a, b]
                      else (case b64_index c4 of
                              None \<Rightarrow> None
                            | Some s4 \<Rightarrow> Some [a, b, push_bit 6 s3 OR s4]))))
      | _ \<Rightarrow> None)"
| "base64_decode (c1 # c2 # c3 # c4 # rest) =
     (case (b64_index c1, b64_index c2, b64_index c3, b64_index c4) of
        (Some s1, Some s2, Some s3, Some s4) \<Rightarrow>
          (case base64_decode rest of
             None \<Rightarrow> None
           | Some bs \<Rightarrow>
               Some ((push_bit 2 s1 OR drop_bit 4 s2) # (push_bit 4 s2 OR drop_bit 2 s3)
                       # (push_bit 6 s3 OR s4) # bs))
      | _ \<Rightarrow> None)"
| "base64_decode _ = None"

section \<open>\<^verbatim>\<open>POST /predict\<close>\<close>

definition textPrompt :: string where
  "textPrompt =
     concat (map (\<lambda>l. CHR 0x0A # l)
       [''You are a plant doctor specialized in helping farmers.'',
        ''Analyze the following image of a plant leaf and provide practical advice.'',
        [],
        ''Please return the response in three clear sections:'',
        [],
        ''1. Disease Name: Name the disease(s) affecting this leaf (if any). Keep it simple and understandable.'',
        ''2. Causes: Explain in simple terms why this disease may happen.'',
        ''3. Prevention & Remedies: Provide clear, practical steps a farmer can follow to prevent and treat the disease.'',
        [],
        ''Format your response exactly like this:'',
        [],
        ''Disease Name:'',
        ''Causes:'',
        ''Prevention & Remedies:''])
     @ [CHR 0x0A]"

definition imagePart :: "byte list \<Rightarrow> multer_file \<Rightarrow> Part" where
  "imagePart imageBuffer f =
     \<lparr>part_text = None,
      inlineData = Some \<lparr>data = base64 imageBuffer, mimeType = mimetype f\<rparr>\<rparr>"

definition text_part :: "string \<Rightarrow> Part" where
  "text_part s = \<lparr>part_text = Some s, inlineData = None\<rparr>"

definition predict_contents :: "byte list \<Rightarrow> multer_file \<Rightarrow> Content list" where
  "predict_contents imageBuffer f =
     [\<lparr>role = Some ''user'', parts = Some [imagePart imageBuffer f, text_part textPrompt]\<rparr>]"

definition predict_request :: "byte list \<Rightarrow> multer_file \<Rightarrow> GenerateContentParameters" where
  "predict_request imageBuffer f =
     \<lparr>model = ''gemini-2.5-flash'',
      contents = predict_contents imageBuffer f,
      safetySettings =
        [\<lparr>category = HARM_CATEGORY_DANGEROUS_CONTENT, threshold = BLOCK_NONE\<rparr>,
         \<lparr>category = HARM_CATEGORY_HATE_SPEECH, threshold = BLOCK_NONE\<rparr>,
         \<lparr>category = HARM_CATEGORY_HARASSMENT, threshold = BLOCK_NONE\<rparr>,
         \<lparr>category = HARM_CATEGORY_SEXUALLY_EXPLICIT, threshold = BLOCK_NONE\<rparr>],
      config = None\<rparr>"

text \<open>
  \<^verbatim>\<open>result.promptFeedback?.blockReason\<close> as a condition: the reason when it is truthy,
  that is a string that is not empty.
\<close>

definition truthy_blockReason :: "GenerateContentResponse \<Rightarrow> string option" where
  "truthy_blockReason result =
     (case promptFeedback result of
        None \<Rightarrow> None
      | Some pf \<Rightarrow>
          (case blockReason pf of
             None \<Rightarrow> None
           | Some r \<Rightarrow> if r = [] then None else Some r))"

definition cannot_read :: "string \<Rightarrow> js_error" where
  "cannot_read prop =
     TypeError (''Cannot read properties of undefined (reading '' @ [CHR 0x27] @ prop @ [CHR 0x27] @ '')'')"

text \<open>
  \<^verbatim>\<open>result.candidates[0].content.parts[0].text\<close>: each property read of \<^verbatim>\<open>undefined\<close>
  throws a TypeError naming the property; a first part without \<^verbatim>\<open>text\<close> gives
  \<^verbatim>\<open>undefined\<close>.
\<close>

definition first_part_text :: "Candidate list \<Rightarrow> js_error + string option" where
  "first_part_text cs =
     (case cs of
        [] \<Rightarrow> Inl (cannot_read ''content'')
      | c # _ \<Rightarrow>
          (case content c of
             None \<Rightarrow> Inl (cannot_read ''parts'')
           | Some ct \<Rightarrow>
               (case parts ct of
                  None \<Rightarrow> Inl (cannot_read ''0'')
                | Some [] \<Rightarrow> Inl (cannot_read ''text'')
                | Some (p # _) \<Rightarrow> Inr (part_text p))))"

text \<open>
  The statements of the \<^verbatim>\<open>try\<close> block after the awaited call has resolved: the events
  they cause and the exception they throw, if any.
\<close>

definition predict_handle :: "Content list \<Rightarrow> GenerateContentResponse \<Rightarrow> event list \<times> js_error option" where
  "predict_handle cts result =
     (case truthy_blockReason result of
        Some r \<Rightarrow>
          ([ConsoleError [LStr ''Request payload:'', LPayload ''gemini-2.5-flash'' cts]],
           Some (Error (''Content generation blocked: '' @ r)))
      | None \<Rightarrow>
          (case candidates result of
             None \<Rightarrow> ([], Some (Error ''No candidates returned from API.''))
           | Some cs \<Rightarrow>
               if length cs = 0 then ([], Some (Error ''No candidates returned from API.''))
               else (case first_part_text cs of
                       Inl e \<Rightarrow> ([], Some e)
                     | Inr responseText \<Rightarrow>
                         ([ConsoleLog [LStr ''Received response from Gemini:'', log_string responseText],
                           send_json 200 [(''success'', JBool True), (''result'', js_string responseText)]],
                          None))))"

definition predict_try :: "world \<Rightarrow> multer_file \<Rightarrow> event list \<times> js_error option" where
  "predict_try w f =
     (case readFileSync w (path f) of
        Inl e \<Rightarrow> ([ReadFileSync (path f)], Some e)
      | Inr imageBuffer \<Rightarrow>
          (let request = predict_request imageBuffer f;
               sent = [ReadFileSync (path f),
                       ConsoleLog [LStr ''Image buffer read successfully.''],
                       ConsoleLog [LStr ''Sending multimodal prompt to Gemini...''],
                       GenerateContent request]
           in case generateContent w request of
                Inl e \<Rightarrow> (sent, Some e)
              | Inr result \<Rightarrow>
                  (case predict_handle (contents request) result of
                     (evs, thrown) \<Rightarrow> (sent @ evs, thrown))))"

definition predict_catch :: "js_error option \<Rightarrow> event list" where
  "predict_catch thrown =
     (case thrown of
        None \<Rightarrow> []
      | Some error \<Rightarrow>
          [ConsoleError [LStr ''Error during prediction:'', LErr error],
           send_json 500 [(''success'', JBool False),
                          (''message'', JString ''Error processing the prediction''),
                          (''error'', JString (message error))]])"

text \<open>
  The \<^verbatim>\<open>finally\<close> block. An exception of \<^verbatim>\<open>fs.unlinkSync\<close> is not caught there: it
  leaves the handler.
\<close>

definition predict_finally :: "world \<Rightarrow> string \<Rightarrow> event list \<times> world \<times> js_error option" where
  "predict_finally w filePath =
     (if existsSync w filePath then
        (case unlinkSync w filePath of
           Inl e \<Rightarrow> ([ExistsSync filePath, UnlinkSync filePath], w, Some e)
         | Inr w' \<Rightarrow>
             ([ExistsSync filePath, UnlinkSync filePath, ConsoleLog [LStr ''Uploaded file deleted'']],
              w', None))
      else ([ExistsSync filePath], w, None))"

definition post_predict :: "world \<Rightarrow> multer_file option \<Rightarrow> outcome" where
  "post_predict w req_file =
     (case req_file of
        None \<Rightarrow>
          \<lparr>trace = [send_json 400 [(''success'', JBool False), (''message'', JString ''No file uploaded.'')]],
           final = w, escaped = None\<rparr>
      | Some f \<Rightarrow>
          (let filePath = path f;
               tried = predict_try w f;
               fin = predict_finally w filePath
           in \<lparr>trace = ConsoleLog [LStr ''Received file:'', LStr (originalname f)]
                          # fst tried @ predict_catch (snd tried) @ fst fin,
               final = fst (snd fin), escaped = snd (snd fin)\<rparr>))"

section \<open>\<^verbatim>\<open>GET /test-gemini\<close>\<close>

definition testPrompt :: string where
  "testPrompt = ''Hello, Gemini!''"

definition test_contents :: "Content list" where
  "test_contents = [\<lparr>role = Some ''user'', parts = Some [text_part testPrompt]\<rparr>]"

definition test_request :: GenerateContentParameters where
  "test_request =
     \<lparr>model = ''gemini-2.5-flash'',
      contents = test_contents,
      safetySettings =
        [\<lparr>category = HARM_CATEGORY_DANGEROUS_CONTENT, threshold = BLOCK_NONE\<rparr>,
         \<lparr>category = HARM_CATEGORY_HATE_SPEECH, threshold = BLOCK_NONE\<rparr>,
         \<lparr>category = HARM_CATEGORY_HARASSMENT, threshold = BLOCK_NONE\<rparr>,
         \<lparr>category = HARM_CATEGORY_SEXUALLY_EXPLICIT, threshold = BLOCK_NONE\<rparr>],
      config = None\<rparr>"

definition test_handle :: "Content list \<Rightarrow> GenerateContentResponse \<Rightarrow> event list \<times> js_error option" where
  "test_handle cts result =
     (case truthy_blockReason result of
        Some r \<Rightarrow>
          ([ConsoleError [LStr ''Test request payload:'', LPayload ''gemini-2.5-flash'' cts]],
           Some (Error (''Test content generation blocked: '' @ r)))
      | None \<Rightarrow>
          (case candidates result of
             None \<Rightarrow> ([], Some (Error ''No candidates returned from API in test.''))
           | Some cs \<Rightarrow>
               if length cs = 0 then ([], Some (Error ''No candidates returned from API in test.''))
               else (case first_part_text cs of
                       Inl e \<Rightarrow> ([], Some e)
                     | Inr responseText \<Rightarrow>
                         ([ConsoleLog [LStr ''Test response from Gemini:'', log_string responseText],
                           send_json 200 [(''success'', JBool True),
                                          (''message'', JString ''Gemini API is working correctly.''),
                                          (''result'', js_string responseText)]],
                          None))))"

definition test_try :: "world \<Rightarrow> event list \<times> js_error option" where
  "test_try w =
     (case generateContent w test_request of
        Inl e \<Rightarrow> ([GenerateContent test_request], Some e)
      | Inr result \<Rightarrow>
          (case test_handle (contents test_request) result of
             (evs, thrown) \<Rightarrow> (GenerateContent test_request # evs, thrown)))"

definition test_catch :: "js_error option \<Rightarrow> event list" where
  "test_catch thrown =
     (case thrown of
        None \<Rightarrow> []
      | Some error \<Rightarrow>
          [ConsoleError [LStr ''Error during Gemini API test interaction:'', LErr error],
           send_json 500 [(''success'', JBool False),
                          (''message'', JString ''Error testing the Gemini API''),
                          (''error'', JString (message error))]])"

definition get_test_gemini :: "world \<Rightarrow> outcome" where
  "get_test_gemini w =
     (let tried = test_try w
      in \<lparr>trace = fst tried @ test_catch (snd tried), final = w, escaped = None\<rparr>)"

section \<open>Reading a trace\<close>

text \<open>
  The responses passed to \<^verbatim>\<open>res.send\<close>, the requests submitted to the API, and the trace
  cut down to the sends and the deletions, each in the order of the trace.
\<close>

fun responses :: "event list \<Rightarrow> response list" where
  "responses [] = []"
| "responses (Send r # es) = r # responses es"
| "responses (e # es) = responses es"

fun api_calls :: "event list \<Rightarrow> GenerateContentParameters list" where
  "api_calls [] = []"
| "api_calls (GenerateContent rq # es) = rq # api_calls es"
| "api_calls (e # es) = api_calls es"

fun is_io :: "event \<Rightarrow> bool" where
  "is_io (Send r) = True"
| "is_io (UnlinkSync p) = True"
| "is_io e = False"

definition io_order :: "event list \<Rightarrow> event list" where
  "io_order tr = filter is_io tr"

text \<open>The error envelope that both routes send from their \<^verbatim>\<open>catch\<close> block.\<close>

abbreviation failure :: "string \<Rightarrow> string \<Rightarrow> response" where
  "failure msg err \<equiv>
     \<lparr>status = 500,
      body = Json [(''success'', JBool False), (''message'', JString msg), (''error'', JString err)]\<rparr>"

section \<open>What the SDK submits\<close>

text \<open>
  The request that \<^verbatim>\<open>generateContent\<close> of the SDK puts on the wire for its argument: the
  model names the endpoint, the body has the contents, and the body has safety settings
  when the argument's \<^verbatim>\<open>config\<close> has them. Other properties of the argument are not read.
\<close>

record wire_request =
  url_model :: string
  body_contents :: "Content list"
  body_safetySettings :: "SafetySetting list option"

definition sdk_request :: "GenerateContentParameters \<Rightarrow> wire_request" where
  "sdk_request params =
     \<lparr>url_model = model params,
      body_contents = contents params,
      body_safetySettings =
        (case config params of None \<Rightarrow> None | Some c \<Rightarrow> config_safetySettings c)\<rparr>"

section \<open>The request boundary of the framework\<close>


section \<open>Concrete requests\<close>

definition leaf_upload :: multer_file where
  "leaf_upload = \<lparr>path = ''/tmp/uploads/3f2a'', originalname = ''leaf.jpg'', mimetype = ''image/jpeg''\<rparr>"

definition leaf_bytes :: "byte list" where
  "leaf_bytes = [0xFF, 0xD8, 0xFF, 0xE0]"

definition serving :: "js_error + GenerateContentResponse \<Rightarrow> world" where
  "serving reply =
     \<lparr>files = [''/tmp/uploads/3f2a'' \<mapsto> leaf_bytes], read_fault = Map.empty,
      unlink_fault = Map.empty, generateContent = (\<lambda>rq. reply)\<rparr>"

definition no_candidates_result :: GenerateContentResponse where
  "no_candidates_result = \<lparr>promptFeedback = None, candidates = Some []\<rparr>"

definition blocked_result :: GenerateContentResponse where
  "blocked_result = \<lparr>promptFeedback = Some \<lparr>blockReason = Some ''SAFETY''\<rparr>, candidates = None\<rparr>"

definition leaf_spot_result :: GenerateContentResponse where
  "leaf_spot_result =
     \<lparr>promptFeedback = None,
      candidates = Some [\<lparr>content = Some \<lparr>role = Some ''model'', parts = Some [text_part ''Leaf Spot'']\<rparr>\<rparr>]\<rparr>"

definition empty_parts_result :: GenerateContentResponse where
  "empty_parts_result =
     \<lparr>promptFeedback = None,
      candidates = Some [\<lparr>content = Some \<lparr>role = Some ''model'', parts = Some []\<rparr>\<rparr>]\<rparr>"



section \<open>Lemmas about the handlers\<close>

lemma responses_append: "responses (xs @ ys) = responses xs @ responses ys"
  by (induction xs rule: responses.induct) simp_all

lemma api_calls_append: "api_calls (xs @ ys) = api_calls xs @ api_calls ys"
  by (induction xs rule: api_calls.induct) simp_all

lemma io_order_append: "io_order (xs @ ys) = io_order xs @ io_order ys"
  by (simp add: io_order_def)

lemma predict_finally_exists:
  "files w p = Some bs \<Longrightarrow>
   predict_finally w p =
     (case unlink_fault w p of
        Some e \<Rightarrow> ([ExistsSync p, UnlinkSync p], w, Some e)
      | None \<Rightarrow> ([ExistsSync p, UnlinkSync p, ConsoleLog [LStr ''Uploaded file deleted'']],
                 w\<lparr>files := (files w)(p := None)\<rparr>, None))"
  by (simp add: predict_finally_def existsSync_def unlinkSync_def split: option.splits)

lemma predict_handle_cases:
  "predict_handle cts result = (evs, thrown) \<Longrightarrow>
   io_order (evs @ predict_catch thrown) = map Send (responses (evs @ predict_catch thrown))
   \<and> length (responses (evs @ predict_catch thrown)) = 1
   \<and> api_calls (evs @ predict_catch thrown) = []"
  by (auto simp: predict_handle_def predict_catch_def send_json_def io_order_def
           split: option.splits if_splits sum.splits)

lemma predict_try_catch_io:
  "io_order (fst (predict_try w f) @ predict_catch (snd (predict_try w f)))
     = map Send (responses (fst (predict_try w f) @ predict_catch (snd (predict_try w f))))
   \<and> length (responses (fst (predict_try w f) @ predict_catch (snd (predict_try w f)))) = 1"
proof (cases "readFileSync w (path f)")
  case (Inl e)
  then show ?thesis
    by (simp add: predict_try_def predict_catch_def send_json_def io_order_def)
next
  case read: (Inr bs)
  show ?thesis
  proof (cases "generateContent w (predict_request bs f)")
    case (Inl e)
    with read show ?thesis
      by (simp add: predict_try_def predict_catch_def send_json_def io_order_def)
  next
    case (Inr result)
    obtain evs thrown
      where h: "predict_handle (contents (predict_request bs f)) result = (evs, thrown)"
      by (cases "predict_handle (contents (predict_request bs f)) result") blast
    have t: "predict_try w f =
               ([ReadFileSync (path f),
                 ConsoleLog [LStr ''Image buffer read successfully.''],
                 ConsoleLog [LStr ''Sending multimodal prompt to Gemini...''],
                 GenerateContent (predict_request bs f)] @ evs, thrown)"
      using read Inr h by (simp add: predict_try_def)
    from predict_handle_cases [OF h] show ?thesis
      by (simp add: t io_order_def)
  qed
qed


lemma readFileSync_ok:
  "files w p = Some bs \<Longrightarrow> read_fault w p = None \<Longrightarrow> readFileSync w p = Inr bs"
  by (simp add: readFileSync_def)

lemma responses_finally: "responses (fst (predict_finally w p)) = []"
  by (simp add: predict_finally_def split: sum.splits)

lemma api_calls_finally: "api_calls (fst (predict_finally w p)) = []"
  by (simp add: predict_finally_def split: sum.splits)

lemma responses_post_predict:
  "responses (trace (post_predict w (Some f)))
     = responses (fst (predict_try w f) @ predict_catch (snd (predict_try w f)))"
  by (simp add: post_predict_def Let_def responses_append responses_finally)

lemma predict_try_resolved:
  assumes "readFileSync w (path f) = Inr bs"
    and "generateContent w (predict_request bs f) = Inr result"
  shows "predict_try w f =
           ([ReadFileSync (path f),
             ConsoleLog [LStr ''Image buffer read successfully.''],
             ConsoleLog [LStr ''Sending multimodal prompt to Gemini...''],
             GenerateContent (predict_request bs f)]
              @ fst (predict_handle (predict_contents bs f) result),
            snd (predict_handle (predict_contents bs f) result))"
  using assms by (simp add: predict_try_def predict_request_def split: prod.splits)

lemma post_predict_cleanup:
  assumes "files w (path f) = Some bs"
  shows "io_order (trace (post_predict w (Some f)))
           = map Send (responses (trace (post_predict w (Some f)))) @ [UnlinkSync (path f)]"
    and "length (responses (trace (post_predict w (Some f)))) = 1"
    and "escaped (post_predict w (Some f)) = unlink_fault w (path f)"
    and "final (post_predict w (Some f)) =
           (case unlink_fault w (path f) of
              None \<Rightarrow> w\<lparr>files := (files w)(path f := None)\<rparr>
            | Some e \<Rightarrow> w)"
proof -
  note fin = predict_finally_exists [OF assms]
  have io: "io_order (fst (predict_finally w (path f))) = [UnlinkSync (path f)]"
    by (simp add: fin io_order_def split: option.splits)
  let ?R = "fst (predict_try w f) @ predict_catch (snd (predict_try w f))"
  have "trace (post_predict w (Some f)) =
          [ConsoleLog [LStr ''Received file:'', LStr (originalname f)]] @ ?R
            @ fst (predict_finally w (path f))"
    by (simp add: post_predict_def Let_def)
  then have "io_order (trace (post_predict w (Some f))) =
          io_order [ConsoleLog [LStr ''Received file:'', LStr (originalname f)]] @ io_order ?R
            @ io_order (fst (predict_finally w (path f)))"
    by (simp only: io_order_append)
  also have "io_order [ConsoleLog [LStr ''Received file:'', LStr (originalname f)]] = []"
    by (simp add: io_order_def)
  also have "io_order ?R = map Send (responses ?R)"
    using predict_try_catch_io [of w f] by simp
  finally show "io_order (trace (post_predict w (Some f)))
           = map Send (responses (trace (post_predict w (Some f)))) @ [UnlinkSync (path f)]"
    by (simp add: io responses_post_predict)
  show "length (responses (trace (post_predict w (Some f)))) = 1"
    using predict_try_catch_io [of w f] by (simp add: responses_post_predict)
  show "escaped (post_predict w (Some f)) = unlink_fault w (path f)"
    by (simp add: post_predict_def Let_def fin split: option.splits)
  show "final (post_predict w (Some f)) =
           (case unlink_fault w (path f) of
              None \<Rightarrow> w\<lparr>files := (files w)(path f := None)\<rparr>
            | Some e \<Rightarrow> w)"
    by (simp add: post_predict_def Let_def fin split: option.splits)
qed




lemma api_calls_post_predict:
  assumes "files w (path f) = Some bs" and "read_fault w (path f) = None"
  shows "api_calls (trace (post_predict w (Some f))) = [predict_request bs f]"
proof -
  note read = readFileSync_ok [OF assms]
  have "api_calls (fst (predict_try w f) @ predict_catch (snd (predict_try w f)))
          = [predict_request bs f]"
  proof (cases "generateContent w (predict_request bs f)")
    case (Inl e)
    with read show ?thesis
      by (simp add: predict_try_def predict_catch_def send_json_def)
  next
    case (Inr result)
    obtain evs thrown
      where h: "predict_handle (predict_contents bs f) result = (evs, thrown)"
      by (cases "predict_handle (predict_contents bs f) result") blast
    from predict_handle_cases [OF h] predict_try_resolved [OF read Inr] h
    show ?thesis by (simp add: api_calls_append)
  qed
  then show ?thesis
    by (simp add: post_predict_def Let_def api_calls_append api_calls_finally)
qed

lemma handlers_joint:
  "(responses (fst (predict_handle b r) @ predict_catch (snd (predict_handle b r))),
    responses (fst (test_handle a r) @ test_catch (snd (test_handle a r)))) =
     (case truthy_blockReason r of
        Some reason \<Rightarrow>
          ([failure ''Error processing the prediction'' (''Content generation blocked: '' @ reason)],
           [failure ''Error testing the Gemini API'' (''Test content generation blocked: '' @ reason)])
      | None \<Rightarrow>
          (case candidates r of
             None \<Rightarrow>
               ([failure ''Error processing the prediction'' ''No candidates returned from API.''],
                [failure ''Error testing the Gemini API'' ''No candidates returned from API in test.''])
           | Some [] \<Rightarrow>
               ([failure ''Error processing the prediction'' ''No candidates returned from API.''],
                [failure ''Error testing the Gemini API'' ''No candidates returned from API in test.''])
           | Some (c # cs) \<Rightarrow>
               (case first_part_text (c # cs) of
                  Inl e \<Rightarrow>
                    ([failure ''Error processing the prediction'' (message e)],
                     [failure ''Error testing the Gemini API'' (message e)])
                | Inr None \<Rightarrow>
                    ([\<lparr>status = 200, body = Json [(''success'', JBool True)]\<rparr>],
                     [\<lparr>status = 200,
                       body = Json [(''success'', JBool True),
                                    (''message'', JString ''Gemini API is working correctly.'')]\<rparr>])
                | Inr (Some t) \<Rightarrow>
                    ([\<lparr>status = 200,
                       body = Json [(''success'', JBool True), (''result'', JString t)]\<rparr>],
                     [\<lparr>status = 200,
                       body = Json [(''success'', JBool True),
                                    (''message'', JString ''Gemini API is working correctly.''),
                                    (''result'', JString t)]\<rparr>]))))"
  by (simp add: test_handle_def predict_handle_def test_catch_def predict_catch_def
      send_json_def split: option.splits sum.splits list.splits)

lemma test_try_resolved:
  "generateContent w test_request = Inr result \<Longrightarrow>
   test_try w = (GenerateContent test_request # fst (test_handle test_contents result),
                 snd (test_handle test_contents result))"
  by (simp add: test_try_def test_request_def split: prod.splits)

lemma test_handle_cases:
  "test_handle cts result = (evs, thrown) \<Longrightarrow>
   length (responses (evs @ test_catch thrown)) = 1
   \<and> api_calls (evs @ test_catch thrown) = []"
  by (auto simp: test_handle_def test_catch_def send_json_def
           split: option.splits if_splits sum.splits)

section \<open>Lemmas about the encoder\<close>

lemma b64_index_alphabet: "\<forall>n<64. b64_index (b64_alphabet ! n) = Some (of_nat n)"
  by (simp add: b64_index_def b64_alphabet_def All_less_Suc numeral_nat del: upt_Suc)

lemma unat_and_63: "unat (s AND 63 :: byte) < 64"
proof -
  have "s AND 63 \<le> 63" by (rule word_and_le1)
  then have "unat (s AND 63) \<le> unat (63 :: byte)" by (simp only: word_le_nat_alt)
  then show ?thesis by simp
qed

lemma b64_index_char: "b64_index (b64_char s) = Some (s AND 63)"
  using b64_index_alphabet unat_and_63 [of s] by (simp add: b64_char_def)

lemma b64_char_not_pad: "b64_char s \<noteq> CHR ''=''"
proof
  assume "b64_char s = CHR ''=''"
  then have "b64_index (b64_char s) = b64_index CHR ''=''" by simp
  then show False by (simp add: b64_index_char) (simp add: b64_index_def)
qed

lemma masks: "(63 :: byte) = mask 6" "(15 :: byte) = mask 4" "(3 :: byte) = mask 2"
  by (simp_all add: mask_eq_exp_minus_1)

lemma shift_back:
  "Suc (Suc (n - 2)) = (if 2 \<le> n then n else 2)"
  "4 + (n - 4) = (if 4 \<le> n then n else 4)"
  "6 + (n - 6) = (if 6 \<le> n then n else (6::nat))"
  by auto

lemma sextets_first:
  "push_bit 2 (drop_bit 2 a AND 63) OR drop_bit 4 ((push_bit 4 (a AND 3) OR drop_bit 4 b) AND 63) = (a :: byte)"
  unfolding masks by (rule bit_word_eqI) (auto simp: bit_simps shift_back split: if_splits)

lemma sextets_second:
  "push_bit 4 ((push_bit 4 (a AND 3) OR drop_bit 4 b) AND 63)
     OR drop_bit 2 ((push_bit 2 (b AND 15) OR drop_bit 6 c) AND 63) = (b :: byte)"
  unfolding masks by (rule bit_word_eqI) (auto simp: bit_simps shift_back split: if_splits)

lemma sextets_third:
  "push_bit 6 ((push_bit 2 (b AND 15) OR drop_bit 6 c) AND 63) OR ((c AND 63) AND 63) = (c :: byte)"
  unfolding masks by (rule bit_word_eqI) (auto simp: bit_simps shift_back split: if_splits)

lemma sextets_second_last:
  "push_bit 4 ((push_bit 4 (a AND 3) OR drop_bit 4 b) AND 63)
     OR drop_bit 2 (push_bit 2 (b AND 15) AND 63) = (b :: byte)"
  unfolding masks by (rule bit_word_eqI) (auto simp: bit_simps shift_back split: if_splits)

lemma sextets_first_last:
  "push_bit 2 (drop_bit 2 a AND 63) OR drop_bit 4 (push_bit 4 (a AND 3) AND 63) = (a :: byte)"
  unfolding masks by (rule bit_word_eqI) (auto simp: bit_simps shift_back split: if_splits)


lemma base64_Nil_iff: "base64 bs = [] \<longleftrightarrow> bs = []"
  by (induction bs rule: base64.induct) simp_all

lemma length_base64: "length (base64 bs) = 4 * ((length bs + 2) div 3)"
proof (induction bs rule: base64.induct)
  case (4 a b c rest)
  have "(length (a # b # c # rest) + 2) div 3 = Suc ((length rest + 2) div 3)"
    by simp
  with 4 show ?case by simp
qed simp_all

lemmas b64_quad =
  base64.simps base64_decode.simps b64_index_char b64_char_not_pad
  sextets_first sextets_second sextets_third sextets_first_last sextets_second_last
  prod.case option.case Let_def if_True if_False simp_thms append.simps

lemma base64_decode_base64: "base64_decode (base64 bs) = Some bs"
proof (induction bs rule: base64.induct)
  case 1
  show ?case by simp
next
  case (2 a)
  show ?case
    by (simp only: b64_quad)
next
  case (3 a b)
  show ?case
    by (simp only: b64_quad)
next
  case (4 a b c rest)
  show ?case
  proof (cases "base64 rest")
    case Nil
    then have "rest = []" by (simp add: base64_Nil_iff)
    then show ?thesis
      by (simp only: b64_quad)
  next
    case (Cons ch chs)
    with 4 show ?thesis
      by (simp only: b64_quad)
  qed
qed

section \<open>The liveness route\<close>

text \<open>
  Claim C10. Every request to \<^verbatim>\<open>GET /\<close> is answered with status 200 and a fixed text body
  that is not empty. The handler logs one line and sends; it reads nothing of the world,
  so the answer is the same whatever the API would reply, it leaves the world as it
  found it, and no exception leaves it.
\<close>

theorem get_root_static:
  "trace (get_root w) =
     [ConsoleLog [LStr ''Health check hit''], Send \<lparr>status = 200, body = Text liveness_text\<rparr>]
   \<and> liveness_text \<noteq> []
   \<and> final (get_root w) = w
   \<and> escaped (get_root w) = None
   \<and> responses (trace (get_root w)) = responses (trace (get_root w'))"
  by (simp add: get_root_def send_text_def liveness_text_def)

section \<open>The prediction route\<close>

text \<open>
  Claim C6. A \<^verbatim>\<open>POST /predict\<close> request without a file is answered with status 400 and
  the body \<^verbatim>\<open>{success: false, message: "No file uploaded."}\<close>. The send is the only
  effect of the handler, so the inference API is not called, and the world is unchanged.
\<close>

theorem predict_without_file:
  "trace (post_predict w None) =
     [Send \<lparr>status = 400,
            body = Json [(''success'', JBool False), (''message'', JString ''No file uploaded.'')]\<rparr>]
   \<and> api_calls (trace (post_predict w None)) = []
   \<and> final (post_predict w None) = w
   \<and> escaped (post_predict w None) = None"
  by (simp add: post_predict_def send_json_def)

text \<open>
  Claim C5. When the upload was read, the API call resolved, no truthy block reason is
  reported and the candidates are absent or an empty list, the one response sent has
  status 500 and carries the message \<^verbatim>\<open>No candidates returned from API.\<close> in its
  \<^verbatim>\<open>error\<close> property.
\<close>

theorem predict_no_candidates:
  assumes "files w (path f) = Some bs" and "read_fault w (path f) = None"
    and "generateContent w (predict_request bs f) = Inr result"
    and "truthy_blockReason result = None"
    and "candidates result = None \<or> candidates result = Some []"
  shows "responses (trace (post_predict w (Some f))) =
           [\<lparr>status = 500,
             body = Json [(''success'', JBool False),
                          (''message'', JString ''Error processing the prediction''),
                          (''error'', JString ''No candidates returned from API.'')]\<rparr>]"
proof -
  have "predict_handle (predict_contents bs f) result =
          ([], Some (Error ''No candidates returned from API.''))"
    using assms(4,5) by (auto simp: predict_handle_def)
  with predict_try_resolved [OF readFileSync_ok [OF assms(1,2)] assms(3)]
  show ?thesis
    by (simp add: responses_post_predict predict_catch_def send_json_def)
qed

theorem predict_no_candidates_witness:
  "files (serving (Inr no_candidates_result)) (path leaf_upload) = Some leaf_bytes
   \<and> read_fault (serving (Inr no_candidates_result)) (path leaf_upload) = None
   \<and> generateContent (serving (Inr no_candidates_result)) (predict_request leaf_bytes leaf_upload)
        = Inr no_candidates_result
   \<and> truthy_blockReason no_candidates_result = None
   \<and> candidates no_candidates_result = Some []
   \<and> responses (trace (post_predict (serving (Inr no_candidates_result)) (Some leaf_upload))) =
           [\<lparr>status = 500,
             body = Json [(''success'', JBool False),
                          (''message'', JString ''Error processing the prediction''),
                          (''error'', JString ''No candidates returned from API.'')]\<rparr>]"
  using predict_no_candidates [of "serving (Inr no_candidates_result)" leaf_upload leaf_bytes
      no_candidates_result]
  by (simp add: serving_def leaf_upload_def no_candidates_result_def truthy_blockReason_def)

text \<open>
  Claim C4. When the upload was read and the API call resolved with a block reason (a
  string that is not empty, which is what the condition of the source tests), the one
  response sent has status 500 and the body \<^verbatim>\<open>{success: false, message, error}\<close>, where
  \<^verbatim>\<open>error\<close> is \<^verbatim>\<open>Content generation blocked: \<close> followed by the vendor's reason.
\<close>

theorem predict_blocked:
  assumes "files w (path f) = Some bs" and "read_fault w (path f) = None"
    and "generateContent w (predict_request bs f) = Inr result"
    and "promptFeedback result = Some pf" and "blockReason pf = Some r" and "r \<noteq> []"
  shows "responses (trace (post_predict w (Some f))) =
           [\<lparr>status = 500,
             body = Json [(''success'', JBool False),
                          (''message'', JString ''Error processing the prediction''),
                          (''error'', JString (''Content generation blocked: '' @ r))]\<rparr>]
         \<and> suffix r (''Content generation blocked: '' @ r)"
proof -
  have "truthy_blockReason result = Some r"
    using assms(4-6) by (simp add: truthy_blockReason_def)
  then have "snd (predict_handle (predict_contents bs f) result) =
          Some (Error (''Content generation blocked: '' @ r))"
    and "responses (fst (predict_handle (predict_contents bs f) result)) = []"
    by (simp_all add: predict_handle_def)
  with predict_try_resolved [OF readFileSync_ok [OF assms(1,2)] assms(3)]
  show ?thesis
    by (simp add: responses_post_predict predict_catch_def send_json_def responses_append
        suffix_def)
qed

theorem predict_blocked_witness:
  "files (serving (Inr blocked_result)) (path leaf_upload) = Some leaf_bytes
   \<and> read_fault (serving (Inr blocked_result)) (path leaf_upload) = None
   \<and> generateContent (serving (Inr blocked_result)) (predict_request leaf_bytes leaf_upload)
        = Inr blocked_result
   \<and> promptFeedback blocked_result = Some \<lparr>blockReason = Some ''SAFETY''\<rparr>
   \<and> blockReason \<lparr>blockReason = Some ''SAFETY''\<rparr> = Some ''SAFETY''
   \<and> ''SAFETY'' \<noteq> []
   \<and> responses (trace (post_predict (serving (Inr blocked_result)) (Some leaf_upload))) =
           [\<lparr>status = 500,
             body = Json [(''success'', JBool False),
                          (''message'', JString ''Error processing the prediction''),
                          (''error'', JString ''Content generation blocked: SAFETY'')]\<rparr>]"
  using predict_blocked [of "serving (Inr blocked_result)" leaf_upload leaf_bytes
      blocked_result "\<lparr>blockReason = Some ''SAFETY''\<rparr>" "''SAFETY''"]
  by (simp add: serving_def leaf_upload_def blocked_result_def)

text \<open>
  Claim C3 promises status 200 whenever the call resolves unblocked with at least one
  candidate. A first candidate whose content has an empty list of parts satisfies that,
  and the read of \<^verbatim>\<open>parts[0].text\<close> throws: the response is the 500 envelope.
\<close>

theorem predict_empty_parts_fails:
  "generateContent (serving (Inr empty_parts_result)) (predict_request leaf_bytes leaf_upload)
     = Inr empty_parts_result
   \<and> truthy_blockReason empty_parts_result = None
   \<and> candidates empty_parts_result
       = Some [\<lparr>content = Some \<lparr>role = Some ''model'', parts = Some []\<rparr>\<rparr>]
   \<and> responses (trace (post_predict (serving (Inr empty_parts_result)) (Some leaf_upload))) =
       [\<lparr>status = 500,
         body = Json [(''success'', JBool False),
                      (''message'', JString ''Error processing the prediction''),
                      (''error'', JString (message (cannot_read ''text'')))]\<rparr>]"
  by (simp add: post_predict_def predict_try_def predict_handle_def predict_catch_def
      predict_finally_def existsSync_def unlinkSync_def readFileSync_def serving_def
      leaf_upload_def empty_parts_result_def truthy_blockReason_def first_part_text_def
      send_json_def Let_def)

text \<open>
  Claim C3, amended. When the upload was read, the API call resolved unblocked and the
  first candidate's content has at least one part, the one response sent has status 200
  and the body \<^verbatim>\<open>{success: true, result: t}\<close>, \<open>t\<close> being the \<^verbatim>\<open>text\<close> of the first part
  of the first candidate; when that part has no \<^verbatim>\<open>text\<close>, the serialised body has no
  \<^verbatim>\<open>result\<close> property.
\<close>

theorem predict_success:
  assumes "files w (path f) = Some bs" and "read_fault w (path f) = None"
    and "generateContent w (predict_request bs f) = Inr result"
    and "truthy_blockReason result = None"
    and "candidates result = Some (c # cs)"
    and "content c = Some ct" and "parts ct = Some (p # ps)"
  shows "responses (trace (post_predict w (Some f))) =
           [\<lparr>status = 200,
             body = Json (case part_text p of
                            Some t \<Rightarrow> [(''success'', JBool True), (''result'', JString t)]
                          | None \<Rightarrow> [(''success'', JBool True)])\<rparr>]"
proof -
  have "first_part_text (c # cs) = Inr (part_text p)"
    using assms(6,7) by (simp add: first_part_text_def)
  then have "predict_handle (predict_contents bs f) result =
          ([ConsoleLog [LStr ''Received response from Gemini:'', log_string (part_text p)],
            send_json 200 [(''success'', JBool True), (''result'', js_string (part_text p))]],
           None)"
    using assms(4,5) by (simp add: predict_handle_def)
  with predict_try_resolved [OF readFileSync_ok [OF assms(1,2)] assms(3)]
  show ?thesis
    by (simp add: responses_post_predict predict_catch_def send_json_def split: option.splits)
qed

theorem predict_success_witness:
  "files (serving (Inr leaf_spot_result)) (path leaf_upload) = Some leaf_bytes
   \<and> read_fault (serving (Inr leaf_spot_result)) (path leaf_upload) = None
   \<and> generateContent (serving (Inr leaf_spot_result)) (predict_request leaf_bytes leaf_upload)
        = Inr leaf_spot_result
   \<and> truthy_blockReason leaf_spot_result = None
   \<and> candidates leaf_spot_result
        = Some [\<lparr>content = Some \<lparr>role = Some ''model'', parts = Some [text_part ''Leaf Spot'']\<rparr>\<rparr>]
   \<and> responses (trace (post_predict (serving (Inr leaf_spot_result)) (Some leaf_upload))) =
        [\<lparr>status = 200,
          body = Json [(''success'', JBool True), (''result'', JString ''Leaf Spot'')]\<rparr>]"
  using predict_success [of "serving (Inr leaf_spot_result)" leaf_upload leaf_bytes
      leaf_spot_result "\<lparr>content = Some \<lparr>role = Some ''model'', parts = Some [text_part ''Leaf Spot'']\<rparr>\<rparr>"
      "[]" "\<lparr>role = Some ''model'', parts = Some [text_part ''Leaf Spot'']\<rparr>"
      "text_part ''Leaf Spot''" "[]"]
  by (simp add: serving_def leaf_upload_def leaf_spot_result_def truthy_blockReason_def
      text_part_def)

text \<open>
  Claim C8. When the first candidate's content has no parts (\<^verbatim>\<open>parts\<close> undefined or an
  empty list), the TypeError of the property read is caught: the one response sent is
  the 500 envelope \<^verbatim>\<open>{success: false, message, error}\<close> with the TypeError's message,
  and the \<^verbatim>\<open>finally\<close> block runs after it: the existence check is made, the upload is
  unlinked, and the only exception that can leave the handler is one of that unlink.
\<close>

theorem predict_missing_parts:
  assumes "files w (path f) = Some bs" and "read_fault w (path f) = None"
    and "generateContent w (predict_request bs f) = Inr result"
    and "truthy_blockReason result = None"
    and "candidates result = Some (c # cs)"
    and "content c = Some ct"
    and "parts ct = None \<or> parts ct = Some []"
  shows "io_order (trace (post_predict w (Some f))) =
           [Send \<lparr>status = 500,
                  body = Json [(''success'', JBool False),
                               (''message'', JString ''Error processing the prediction''),
                               (''error'', JString (message
                                  (cannot_read (if parts ct = None then ''0'' else ''text''))))]\<rparr>,
            UnlinkSync (path f)]
       \<and> ExistsSync (path f) \<in> set (trace (post_predict w (Some f)))
       \<and> escaped (post_predict w (Some f)) = unlink_fault w (path f)
       \<and> final (post_predict w (Some f)) =
           (case unlink_fault w (path f) of
              None \<Rightarrow> w\<lparr>files := (files w)(path f := None)\<rparr>
            | Some e \<Rightarrow> w)"
proof -
  have "first_part_text (c # cs) =
          Inl (cannot_read (if parts ct = None then ''0'' else ''text''))"
    using assms(6,7) by (auto simp: first_part_text_def)
  then have "predict_handle (predict_contents bs f) result =
          ([], Some (cannot_read (if parts ct = None then ''0'' else ''text'')))"
    using assms(4,5) by (simp add: predict_handle_def)
  with predict_try_resolved [OF readFileSync_ok [OF assms(1,2)] assms(3)]
  have "responses (trace (post_predict w (Some f))) =
          [\<lparr>status = 500,
            body = Json [(''success'', JBool False),
                         (''message'', JString ''Error processing the prediction''),
                         (''error'', JString (message
                            (cannot_read (if parts ct = None then ''0'' else ''text''))))]\<rparr>]"
    by (simp add: responses_post_predict predict_catch_def send_json_def)
  moreover have "ExistsSync (path f) \<in> set (trace (post_predict w (Some f)))"
    by (simp add: post_predict_def Let_def predict_finally_def split: sum.splits)
  ultimately show ?thesis
    using post_predict_cleanup [OF assms(1)] by simp
qed

theorem predict_missing_parts_witness:
  "files (serving (Inr empty_parts_result)) (path leaf_upload) = Some leaf_bytes
   \<and> read_fault (serving (Inr empty_parts_result)) (path leaf_upload) = None
   \<and> generateContent (serving (Inr empty_parts_result)) (predict_request leaf_bytes leaf_upload)
        = Inr empty_parts_result
   \<and> truthy_blockReason empty_parts_result = None
   \<and> candidates empty_parts_result
        = Some [\<lparr>content = Some \<lparr>role = Some ''model'', parts = Some []\<rparr>\<rparr>]
   \<and> io_order (trace (post_predict (serving (Inr empty_parts_result)) (Some leaf_upload))) =
        [Send \<lparr>status = 500,
               body = Json [(''success'', JBool False),
                            (''message'', JString ''Error processing the prediction''),
                            (''error'', JString (message (cannot_read ''text'')))]\<rparr>,
         UnlinkSync ''/tmp/uploads/3f2a'']
   \<and> escaped (post_predict (serving (Inr empty_parts_result)) (Some leaf_upload)) = None
   \<and> files (final (post_predict (serving (Inr empty_parts_result)) (Some leaf_upload)))
        ''/tmp/uploads/3f2a'' = None"
  using predict_missing_parts [of "serving (Inr empty_parts_result)" leaf_upload leaf_bytes
      empty_parts_result "\<lparr>content = Some \<lparr>role = Some ''model'', parts = Some []\<rparr>\<rparr>"
      "[]" "\<lparr>role = Some ''model'', parts = Some []\<rparr>"]
  by (simp add: serving_def leaf_upload_def empty_parts_result_def truthy_blockReason_def)

text \<open>
  Claim C7. The source builds the request the claim describes and passes it to the SDK:
  one inline part with the Base64 encoding of the bytes of the uploaded file and the
  upload's declared media type, the fixed instruction text, and the four categories set
  to \<^verbatim>\<open>BLOCK_NONE\<close>. It writes the settings as the property \<^verbatim>\<open>safetySettings\<close> of the
  argument, where the SDK does not read them. For the upload of a JPEG header the request
  on the wire has the model, the two parts, and no safety settings.
\<close>

theorem predict_settings_not_submitted:
  "map sdk_request (api_calls (trace (post_predict (serving (Inr leaf_spot_result)) (Some leaf_upload)))) =
     [\<lparr>url_model = ''gemini-2.5-flash'',
       body_contents =
         [\<lparr>role = Some ''user'',
           parts = Some [\<lparr>part_text = None,
                          inlineData = Some \<lparr>data = ''/9j/4A=='', mimeType = ''image/jpeg''\<rparr>\<rparr>,
                         \<lparr>part_text = Some textPrompt, inlineData = None\<rparr>]\<rparr>],
       body_safetySettings = None\<rparr>]
   \<and> map safetySettings (api_calls (trace (post_predict (serving (Inr leaf_spot_result)) (Some leaf_upload)))) =
     [[\<lparr>category = HARM_CATEGORY_DANGEROUS_CONTENT, threshold = BLOCK_NONE\<rparr>,
       \<lparr>category = HARM_CATEGORY_HATE_SPEECH, threshold = BLOCK_NONE\<rparr>,
       \<lparr>category = HARM_CATEGORY_HARASSMENT, threshold = BLOCK_NONE\<rparr>,
       \<lparr>category = HARM_CATEGORY_SEXUALLY_EXPLICIT, threshold = BLOCK_NONE\<rparr>]]
   \<and> base64_decode ''/9j/4A=='' = Some [0xFF, 0xD8, 0xFF, 0xE0]"
proof -
  have "files (serving (Inr leaf_spot_result)) (path leaf_upload) = Some leaf_bytes"
    and "read_fault (serving (Inr leaf_spot_result)) (path leaf_upload) = None"
    by (simp_all add: serving_def leaf_upload_def)
  from api_calls_post_predict [OF this] base64_decode_base64 [of leaf_bytes] show ?thesis
    by (simp add: sdk_request_def predict_request_def predict_contents_def imagePart_def
        text_part_def leaf_upload_def leaf_bytes_def b64_char_def b64_alphabet_def)
qed

section \<open>Cleanup of the upload\<close>

text \<open>
  Claim C1 states that the upload is deleted before the response is sent. The handler
  calls \<^verbatim>\<open>res.send\<close> inside \<^verbatim>\<open>try\<close> (or \<^verbatim>\<open>catch\<close>) and deletes in \<^verbatim>\<open>finally\<close>: on a
  successful prediction the send comes first and the deletion second.
\<close>

theorem predict_sends_before_deleting:
  "io_order (trace (post_predict (serving (Inr leaf_spot_result)) (Some leaf_upload))) =
     [Send \<lparr>status = 200,
            body = Json [(''success'', JBool True), (''result'', JString ''Leaf Spot'')]\<rparr>,
      UnlinkSync ''/tmp/uploads/3f2a'']"
  by (simp add: post_predict_def predict_try_def predict_handle_def predict_catch_def
      predict_finally_def existsSync_def unlinkSync_def readFileSync_def serving_def
      leaf_upload_def leaf_spot_result_def truthy_blockReason_def first_part_text_def
      text_part_def send_json_def io_order_def Let_def)

text \<open>
  Claim C1, amended. For every \<^verbatim>\<open>POST /predict\<close> request whose upload exists, on every
  path through the handler (success, an error of the API, an error reading the file)
  exactly one response is sent and after it \<^verbatim>\<open>fs.unlinkSync\<close> is called exactly once, on
  the upload's path. When that call succeeds the file is gone, nothing else of the world
  has changed and the handler returns normally; an exception can leave the handler only
  from that call.
\<close>

theorem predict_cleanup_after_send:
  assumes "files w (path f) = Some bs"
  shows "io_order (trace (post_predict w (Some f)))
           = map Send (responses (trace (post_predict w (Some f)))) @ [UnlinkSync (path f)]
       \<and> length (responses (trace (post_predict w (Some f)))) = 1
       \<and> final (post_predict w (Some f)) =
           (case unlink_fault w (path f) of
              None \<Rightarrow> w\<lparr>files := (files w)(path f := None)\<rparr>
            | Some e \<Rightarrow> w)
       \<and> escaped (post_predict w (Some f)) = unlink_fault w (path f)"
  using post_predict_cleanup [OF assms] by simp

theorem predict_cleanup_after_send_witness:
  "files (serving (Inr leaf_spot_result)) (path leaf_upload) = Some leaf_bytes
   \<and> io_order (trace (post_predict (serving (Inr leaf_spot_result)) (Some leaf_upload)))
       = map Send (responses (trace (post_predict (serving (Inr leaf_spot_result)) (Some leaf_upload))))
           @ [UnlinkSync ''/tmp/uploads/3f2a'']
   \<and> length (responses (trace (post_predict (serving (Inr leaf_spot_result)) (Some leaf_upload)))) = 1
   \<and> files (final (post_predict (serving (Inr leaf_spot_result)) (Some leaf_upload)))
        ''/tmp/uploads/3f2a'' = None
   \<and> escaped (post_predict (serving (Inr leaf_spot_result)) (Some leaf_upload)) = None"
  using predict_cleanup_after_send [of "serving (Inr leaf_spot_result)" leaf_upload leaf_bytes]
  by (simp add: serving_def leaf_upload_def)



section \<open>The diagnostic route\<close>

text \<open>
  Claim C9. \<^verbatim>\<open>GET /test-gemini\<close> submits one request, which is the request of
  \<^verbatim>\<open>POST /predict\<close> with its contents replaced by the single text part \<^verbatim>\<open>Hello, Gemini!\<close>:
  the model identifier and the four safety settings are the same. It handles the reply
  by the same steps in the same order. When the API gives both requests the same reply,
  both routes take the same branch (rejected call, block reason, no candidates, failed
  read of the first part, text of the first part of the first candidate) and send one
  response with the same status; the two errors carry the same block reason or the same
  exception message, and the two success bodies the same text. Each route words its
  messages itself, and the test route's success body has a \<^verbatim>\<open>message\<close> property.
\<close>

theorem test_gemini_same_handling:
  assumes "files w (path f) = Some bs" and "read_fault w (path f) = None"
    and "generateContent w test_request = generateContent w (predict_request bs f)"
  shows "api_calls (trace (post_predict w (Some f))) = [predict_request bs f]
       \<and> api_calls (trace (get_test_gemini w)) =
           [(predict_request bs f)
              \<lparr>contents :=
                 [\<lparr>role = Some ''user'',
                   parts = Some [\<lparr>part_text = Some ''Hello, Gemini!'', inlineData = None\<rparr>]\<rparr>]\<rparr>]
       \<and> (responses (trace (post_predict w (Some f))), responses (trace (get_test_gemini w))) =
           (case generateContent w test_request of
              Inl e \<Rightarrow>
                ([failure ''Error processing the prediction'' (message e)],
                 [failure ''Error testing the Gemini API'' (message e)])
            | Inr result \<Rightarrow>
                (case truthy_blockReason result of
                   Some reason \<Rightarrow>
                     ([failure ''Error processing the prediction''
                         (''Content generation blocked: '' @ reason)],
                      [failure ''Error testing the Gemini API''
                         (''Test content generation blocked: '' @ reason)])
                 | None \<Rightarrow>
                     (case candidates result of
                        None \<Rightarrow>
                          ([failure ''Error processing the prediction''
                              ''No candidates returned from API.''],
                           [failure ''Error testing the Gemini API''
                              ''No candidates returned from API in test.''])
                      | Some [] \<Rightarrow>
                          ([failure ''Error processing the prediction''
                              ''No candidates returned from API.''],
                           [failure ''Error testing the Gemini API''
                              ''No candidates returned from API in test.''])
                      | Some (c # cs) \<Rightarrow>
                          (case first_part_text (c # cs) of
                             Inl e \<Rightarrow>
                               ([failure ''Error processing the prediction'' (message e)],
                                [failure ''Error testing the Gemini API'' (message e)])
                           | Inr None \<Rightarrow>
                               ([\<lparr>status = 200, body = Json [(''success'', JBool True)]\<rparr>],
                                [\<lparr>status = 200,
                                  body = Json [(''success'', JBool True),
                                               (''message'', JString ''Gemini API is working correctly.'')]\<rparr>])
                           | Inr (Some t) \<Rightarrow>
                               ([\<lparr>status = 200,
                                  body = Json [(''success'', JBool True), (''result'', JString t)]\<rparr>],
                                [\<lparr>status = 200,
                                  body = Json [(''success'', JBool True),
                                               (''message'', JString ''Gemini API is working correctly.''),
                                               (''result'', JString t)]\<rparr>])))))"
proof -
  note read = readFileSync_ok [OF assms(1,2)]
  have rq: "test_request =
           (predict_request bs f)
              \<lparr>contents :=
                 [\<lparr>role = Some ''user'',
                   parts = Some [\<lparr>part_text = Some ''Hello, Gemini!'', inlineData = None\<rparr>]\<rparr>]\<rparr>"
    by (simp add: test_request_def predict_request_def test_contents_def text_part_def
        testPrompt_def)
  show ?thesis
  proof (cases "generateContent w (predict_request bs f)")
    case (Inl e)
    then have t: "test_try w = ([GenerateContent test_request], Some e)"
      using assms(3) by (simp add: test_try_def)
    have p: "predict_try w f =
               ([ReadFileSync (path f),
                 ConsoleLog [LStr ''Image buffer read successfully.''],
                 ConsoleLog [LStr ''Sending multimodal prompt to Gemini...''],
                 GenerateContent (predict_request bs f)], Some e)"
      using read Inl by (simp add: predict_try_def)
    have "api_calls (trace (get_test_gemini w)) = [test_request]"
      and "responses (trace (get_test_gemini w))
             = [failure ''Error testing the Gemini API'' (message e)]"
      by (simp_all add: get_test_gemini_def t test_catch_def send_json_def)
    moreover have "responses (trace (post_predict w (Some f)))
             = [failure ''Error processing the prediction'' (message e)]"
      by (simp add: responses_post_predict p predict_catch_def send_json_def)
    ultimately show ?thesis
      using api_calls_post_predict [OF assms(1,2)] Inl assms(3)
      by (simp add: rq [symmetric])
  next
    case (Inr result)
    then have t: "test_try w =
        (GenerateContent test_request # fst (test_handle test_contents result),
         snd (test_handle test_contents result))"
      using assms(3) by (simp add: test_try_resolved)
    note p = predict_try_resolved [OF read Inr]
    have calls: "api_calls (trace (get_test_gemini w)) = [test_request]"
      using test_handle_cases [of test_contents result
          "fst (test_handle test_contents result)" "snd (test_handle test_contents result)"]
      by (simp add: get_test_gemini_def t)
    have test: "responses (trace (get_test_gemini w)) =
        responses (fst (test_handle test_contents result)
                     @ test_catch (snd (test_handle test_contents result)))"
      by (simp add: get_test_gemini_def t)
    have pred: "responses (trace (post_predict w (Some f))) =
        responses (fst (predict_handle (predict_contents bs f) result)
                     @ predict_catch (snd (predict_handle (predict_contents bs f) result)))"
      by (simp add: responses_post_predict p responses_append)
    have reply: "generateContent w test_request = Inr result"
      using Inr assms(3) by simp
    show ?thesis
      using handlers_joint [of "predict_contents bs f" result test_contents]
        api_calls_post_predict [OF assms(1,2)] calls
      by (simp only: test pred rq [symmetric] reply sum.case)
  qed
qed

theorem test_gemini_same_handling_witness:
  "files (serving (Inr blocked_result)) (path leaf_upload) = Some leaf_bytes
   \<and> read_fault (serving (Inr blocked_result)) (path leaf_upload) = None
   \<and> generateContent (serving (Inr blocked_result)) test_request
       = generateContent (serving (Inr blocked_result)) (predict_request leaf_bytes leaf_upload)
   \<and> api_calls (trace (get_test_gemini (serving (Inr blocked_result)))) =
       [(predict_request leaf_bytes leaf_upload)
          \<lparr>contents :=
             [\<lparr>role = Some ''user'',
               parts = Some [\<lparr>part_text = Some ''Hello, Gemini!'', inlineData = None\<rparr>]\<rparr>]\<rparr>]
   \<and> responses (trace (post_predict (serving (Inr blocked_result)) (Some leaf_upload))) =
       [failure ''Error processing the prediction'' ''Content generation blocked: SAFETY'']
   \<and> responses (trace (get_test_gemini (serving (Inr blocked_result)))) =
       [failure ''Error testing the Gemini API'' ''Test content generation blocked: SAFETY'']"
  using test_gemini_same_handling [of "serving (Inr blocked_result)" leaf_upload leaf_bytes]
  by (simp add: serving_def leaf_upload_def blocked_result_def truthy_blockReason_def)

end
